theory Spec2Isabelle
  imports Complex_Main "HOL-Library.Char_ord" "HOL-Library.List_Lexorder"
    "HOL-Library.Product_Lexorder"
begin

section \<open>Python values used by app.py\<close>

text \<open>
  A Python \<open>str\<close> is modelled as a \<open>string\<close> whose characters are the
  code points below 256 (one \<open>char\<close> per code point).  The order on strings is the
  lexicographic order on code points, which is also the order SQLite's BINARY collation
  gives to the stored UTF-8 text.

  A Python \<open>float\<close> is a finite real, an infinity or a NaN.  The two operations on
  floats whose exact result depends on IEEE rounding, the conversion \<open>float(s)\<close> of
  a string and the addition \<open>a + b\<close>, are parameters (\<open>float_str\<close>, \<open>fadd\<close>) of
  the functions that use them; every theorem below holds for all their values.
\<close>

datatype py_error = ValueError | TypeError | OverflowError | IntegrityError

datatype pyfloat = Finite real | PosInf | NegInf | NaN

text \<open>\<open>amount_f <= 0\<close>: a comparison with NaN is false.\<close>

fun float_le0 :: "pyfloat \<Rightarrow> bool" where
  "float_le0 (Finite r) = (r \<le> 0)"
| "float_le0 PosInf = False"
| "float_le0 NegInf = True"
| "float_le0 NaN = False"

text \<open>\<open>str.isspace\<close> on the code points below 256, and \<open>str.strip()\<close>.\<close>

definition py_isspace :: "char \<Rightarrow> bool" where
  "py_isspace c = (let n = (of_char c :: nat) in
     (9 \<le> n \<and> n \<le> 13) \<or> (28 \<le> n \<and> n \<le> 32) \<or> n = 133 \<or> n = 160)"

definition py_strip :: "string \<Rightarrow> string" where
  "py_strip s = rev (dropWhile py_isspace (rev (dropWhile py_isspace s)))"

text \<open>
  \<open>str.isdigit\<close>: the string is not empty and every character is a digit.  Below 256
  the digits are the decimal digits \<open>0\<close> to \<open>9\<close> and the superscripts two, three and
  one (code points 178, 179, 185), which \<open>int\<close> rejects.
\<close>

definition py_isdecimal_char :: "char \<Rightarrow> bool" where
  "py_isdecimal_char c = (let n = (of_char c :: nat) in 48 \<le> n \<and> n \<le> 57)"

definition py_isdigit_char :: "char \<Rightarrow> bool" where
  "py_isdigit_char c = (let n = (of_char c :: nat) in
     (48 \<le> n \<and> n \<le> 57) \<or> n = 178 \<or> n = 179 \<or> n = 185)"

definition py_isdigit :: "string \<Rightarrow> bool" where
  "py_isdigit s = (s \<noteq> [] \<and> list_all py_isdigit_char s)"

text \<open>
  \<open>int(s)\<close> on the strings app.py gives it, which have all passed \<open>isdigit()\<close> or are
  the literals \<open>0\<close> and \<open>1\<close>: the decimal value, ValueError when a character is not a
  decimal digit or when the string is longer than the interpreter's limit on integer
  strings (4300 digits).
\<close>

definition py_int :: "string \<Rightarrow> py_error + int" where
  "py_int s = (if s \<noteq> [] \<and> list_all py_isdecimal_char s \<and> length s \<le> 4300
     then Inr (foldl (\<lambda>a c. 10 * a + (int (of_char c) - 48)) 0 s)
     else Inl ValueError)"

text \<open>A Python int is bound to a SQLite INTEGER only when it fits 64 bits (else OverflowError).\<close>

definition sqlite_int :: "int \<Rightarrow> bool" where
  "sqlite_int n = (- (2 ^ 63) \<le> n \<and> n < 2 ^ 63)"

text \<open>\<open>d.get(k, default)\<close> on the request's args and form (the first value of a key).\<close>

definition dict_get :: "('k \<times> 'v) list \<Rightarrow> 'k \<Rightarrow> 'v \<Rightarrow> 'v" where
  "dict_get d k dflt = (case map_of d k of None \<Rightarrow> dflt | Some v \<Rightarrow> v)"

text \<open>\<open>d[k] = v\<close> on a dict, which keeps the insertion order of its keys.\<close>

fun dict_set :: "('k \<times> 'v) list \<Rightarrow> 'k \<Rightarrow> 'v \<Rightarrow> ('k \<times> 'v) list" where
  "dict_set [] k v = [(k, v)]"
| "dict_set (p # ps) k v = (if fst p = k then (k, v) # ps else p # dict_set ps k v)"

section \<open>The store\<close>

record user =
  u_id :: int
  u_username :: string
  u_password :: string
  u_role :: string

record category =
  c_id :: int
  c_name :: string

record expense =
  e_id :: int
  e_user_id :: int
  e_category_id :: int
  e_amount :: pyfloat
  e_description :: string
  e_expense_date :: string
  e_is_essential :: int

text \<open>
  The three tables in rowid order, and for each the AUTOINCREMENT counter SQLite keeps in
  \<open>sqlite_sequence\<close>.
\<close>

record db =
  users_tbl :: "user list"
  categories_tbl :: "category list"
  expenses_tbl :: "expense list"
  users_seq :: int
  categories_seq :: int
  expenses_seq :: int

definition empty_db :: db where
  "empty_db = \<lparr>users_tbl = [], categories_tbl = [], expenses_tbl = [],
     users_seq = 0, categories_seq = 0, expenses_seq = 0\<rparr>"

text \<open>The rowid an AUTOINCREMENT table gives a new row.\<close>

definition next_rowid :: "int \<Rightarrow> int list \<Rightarrow> int" where
  "next_rowid s ids = max s (foldr max ids 0) + 1"

text \<open>
  \<open>INSERT OR IGNORE INTO categories(name) VALUES (?)\<close>: a name already there (UNIQUE)
  skips the row.  The rowid is drawn before the conflict is seen, so the counter
  advances in both cases.
\<close>

definition insert_or_ignore_category :: "string \<Rightarrow> db \<Rightarrow> db" where
  "insert_or_ignore_category nm d =
     (let i = next_rowid (categories_seq d) (map c_id (categories_tbl d)) in
      if nm \<in> set (map c_name (categories_tbl d)) then d\<lparr>categories_seq := i\<rparr>
      else d\<lparr>categories_tbl := categories_tbl d @ [\<lparr>c_id = i, c_name = nm\<rparr>],
             categories_seq := i\<rparr>)"

text \<open>\<open>INSERT OR IGNORE INTO users(username, password, role) VALUES (?,?,?)\<close>.\<close>

definition insert_or_ignore_user :: "string \<Rightarrow> string \<Rightarrow> string \<Rightarrow> db \<Rightarrow> db" where
  "insert_or_ignore_user nm pw rl d =
     (let i = next_rowid (users_seq d) (map u_id (users_tbl d)) in
      if nm \<in> set (map u_username (users_tbl d)) \<or> rl \<notin> set [''user'', ''admin'']
      then d\<lparr>users_seq := i\<rparr>
      else d\<lparr>users_tbl := users_tbl d @
               [\<lparr>u_id = i, u_username = nm, u_password = pw, u_role = rl\<rparr>],
             users_seq := i\<rparr>)"

definition default_categories :: "string list" where
  "default_categories = [''Food'', ''Transport'', ''Rent'', ''Shopping'', ''Bills'', ''Other'']"

text \<open>\<open>init_db\<close>: the tables exist in every \<open>db\<close>; the seed rows are added if absent.\<close>

definition init_db :: "db \<Rightarrow> db" where
  "init_db d =
     insert_or_ignore_user ''admin'' ''admin123'' ''admin''
       (insert_or_ignore_user ''student'' ''student123'' ''user''
         (fold insert_or_ignore_category default_categories d))"

text \<open>
  The value SQLite stores for an amount: NaN is bound as NULL, which NOT NULL refuses,
  and \<open>CHECK(amount >= 0)\<close> refuses the negative values.
\<close>

fun amount_storable :: "pyfloat \<Rightarrow> bool" where
  "amount_storable (Finite r) = (0 \<le> r)"
| "amount_storable PosInf = True"
| "amount_storable NegInf = False"
| "amount_storable NaN = False"

text \<open>
  \<open>INSERT INTO expenses(user_id, category_id, amount, description, expense_date,
  is_essential) VALUES (?, ?, ?, ?, ?, ?)\<close> and its commit.  The user id is
  \<open>session.get("user_id")\<close>, None when the key is absent.  A failed statement leaves
  the store as it was.
\<close>

definition insert_expense ::
  "db \<Rightarrow> int option \<Rightarrow> int \<Rightarrow> pyfloat \<Rightarrow> string \<Rightarrow> string \<Rightarrow> int \<Rightarrow> py_error + db" where
  "insert_expense d uid cid amt descr dt ess =
     (if (case uid of None \<Rightarrow> False | Some u \<Rightarrow> \<not> sqlite_int u) \<or> \<not> sqlite_int cid
      then Inl OverflowError
      else case uid of
        None \<Rightarrow> Inl IntegrityError
      | Some u \<Rightarrow>
          if \<not> amount_storable amt then Inl IntegrityError
          else if u \<notin> set (map u_id (users_tbl d)) \<or> cid \<notin> set (map c_id (categories_tbl d))
          then Inl IntegrityError
          else
            let i = next_rowid (expenses_seq d) (map e_id (expenses_tbl d)) in
            Inr (d\<lparr>expenses_tbl := expenses_tbl d @
                     [\<lparr>e_id = i, e_user_id = u, e_category_id = cid, e_amount = amt,
                       e_description = descr, e_expense_date = dt, e_is_essential = ess\<rparr>],
                   expenses_seq := i\<rparr>))"

text \<open>
  \<open>UPDATE expenses SET category_id = ?, amount = ?, description = ?, expense_date = ?,
  is_essential = ? WHERE id = ?\<close> and its commit.
\<close>

definition update_expense ::
  "db \<Rightarrow> int \<Rightarrow> pyfloat \<Rightarrow> string \<Rightarrow> string \<Rightarrow> int \<Rightarrow> int \<Rightarrow> py_error + db" where
  "update_expense d cid amt descr dt ess eid =
     (if \<not> sqlite_int cid \<or> \<not> sqlite_int eid then Inl OverflowError
      else if eid \<in> set (map e_id (expenses_tbl d)) \<and>
              (\<not> amount_storable amt \<or> cid \<notin> set (map c_id (categories_tbl d)))
      then Inl IntegrityError
      else Inr (d\<lparr>expenses_tbl :=
             map (\<lambda>e. if e_id e = eid
                       then e\<lparr>e_category_id := cid, e_amount := amt, e_description := descr,
                              e_expense_date := dt, e_is_essential := ess\<rparr>
                       else e)
               (expenses_tbl d)\<rparr>))"

text \<open>\<open>DELETE FROM expenses WHERE id = ?\<close> and its commit.\<close>

definition delete_expense_row :: "db \<Rightarrow> int \<Rightarrow> db" where
  "delete_expense_row d eid = d\<lparr>expenses_tbl := filter (\<lambda>e. e_id e \<noteq> eid) (expenses_tbl d)\<rparr>"

text \<open>\<open>INSERT INTO categories(name) VALUES (?)\<close>: a name already there is an IntegrityError.\<close>

definition insert_category :: "db \<Rightarrow> string \<Rightarrow> py_error + db" where
  "insert_category d nm =
     (if nm \<in> set (map c_name (categories_tbl d)) then Inl IntegrityError
      else
        let i = next_rowid (categories_seq d) (map c_id (categories_tbl d)) in
        Inr (d\<lparr>categories_tbl := categories_tbl d @ [\<lparr>c_id = i, c_name = nm\<rparr>],
               categories_seq := i\<rparr>))"

text \<open>\<open>SELECT id, name FROM categories ORDER BY name\<close>.\<close>

definition select_categories :: "db \<Rightarrow> category list" where
  "select_categories d = sort_key c_name (categories_tbl d)"

text \<open>\<open>SELECT ... FROM expenses WHERE id = ?\<close> with \<open>fetchone()\<close>.\<close>

definition select_expense :: "db \<Rightarrow> int \<Rightarrow> expense option" where
  "select_expense d eid = find (\<lambda>e. e_id e = eid) (expenses_tbl d)"

section \<open>Session, request and response\<close>

text \<open>The Flask session: the three keys \<open>login\<close> sets, each absent or present.\<close>

record session =
  sess_user_id :: "int option"
  sess_username :: "string option"
  sess_role :: "string option"

record request =
  req_method :: string
  req_path :: string
  req_args :: "(string \<times> string) list"
  req_form :: "(string \<times> string) list"

text \<open>The targets of \<open>redirect(url_for(...))\<close>.\<close>

datatype endpoint = Index | Login "string option" | Expenses | Categories

text \<open>A row of the listing: the seven columns of its SELECT.\<close>

record row =
  r_id :: int
  r_amount :: pyfloat
  r_description :: string
  r_expense_date :: string
  r_is_essential :: int
  r_category_name :: string
  r_owner :: string

text \<open>The arguments of \<open>render_template("expenses.html", ...)\<close>.\<close>

record listing =
  l_expenses :: "row list"
  l_categories :: "category list"
  l_total :: pyfloat
  l_totals_by_category :: "(string \<times> pyfloat) list"
  l_filters :: "(string \<times> string) list"
  l_admin :: bool

datatype form_data = Submitted "(string \<times> string) list" | Stored expense

datatype page =
    ExpensesHtml listing
  | AddExpenseHtml "category list" "(string \<times> string) list"
  | EditExpenseHtml "category list" expense form_data
  | CategoriesHtml "category list"

datatype response = Redirect endpoint | Render page | Raised py_error

text \<open>
  What a request leaves behind: the response, the messages flashed (text and category)
  and the store.
\<close>

record outcome =
  resp :: response
  flashed :: "(string \<times> string) list"
  store :: db

type_synonym view = "session \<Rightarrow> request \<Rightarrow> db \<Rightarrow> outcome"

definition raised :: "py_error \<Rightarrow> db \<Rightarrow> outcome" where
  "raised err d = \<lparr>resp = Raised err, flashed = [], store = d\<rparr>"

section \<open>Auth helpers\<close>

definition login_required :: "view \<Rightarrow> view" where
  "login_required view_func sess req d =
     (if sess_user_id sess = None
      then \<lparr>resp = Redirect (Login (Some (req_path req))),
            flashed = [(''Please log in to continue.'', ''warning'')], store = d\<rparr>
      else view_func sess req d)"

definition admin_required :: "view \<Rightarrow> view" where
  "admin_required view_func sess req d =
     (if sess_role sess \<noteq> Some ''admin''
      then \<lparr>resp = Redirect Index,
            flashed = [(''Admin access required.'', ''danger'')], store = d\<rparr>
      else view_func sess req d)"

definition current_user_id :: "session \<Rightarrow> int option" where
  "current_user_id sess = sess_user_id sess"

definition is_admin :: "session \<Rightarrow> bool" where
  "is_admin sess = (sess_role sess = Some ''admin'')"

section \<open>The listing\<close>

text \<open>
  An entry of \<open>where_clauses\<close> with the entry of \<open>params\<close> bound to its placeholder.
  The user id is \<open>current_user_id()\<close>, None (SQL NULL) when the session has none.
\<close>

datatype where_clause =
    UserIdEq "int option"
  | CategoryIdEq int
  | ExpenseDateGe string
  | ExpenseDateLe string
  | IsEssentialEq int

text \<open>
  The filters of \<open>expenses\<close>, in the order the source appends them.  \<open>int(category_id)\<close>
  can raise.
\<close>

definition where_clauses ::
  "session \<Rightarrow> string \<Rightarrow> string \<Rightarrow> string \<Rightarrow> string \<Rightarrow> py_error + where_clause list" where
  "where_clauses sess category_id date_from date_to essential =
     (let w1 = (if \<not> is_admin sess then [UserIdEq (current_user_id sess)] else []);
          w3 = (if date_from \<noteq> [] then [ExpenseDateGe date_from] else []);
          w4 = (if date_to \<noteq> [] then [ExpenseDateLe date_to] else []);
          w5 = (if essential = ''0'' then [IsEssentialEq 0]
                else if essential = ''1'' then [IsEssentialEq 1] else [])
      in if py_isdigit category_id
         then (case py_int category_id of
                 Inl err \<Rightarrow> Inl err
               | Inr n \<Rightarrow> Inr (w1 @ [CategoryIdEq n] @ w3 @ w4 @ w5))
         else Inr (w1 @ w3 @ w4 @ w5))"

type_synonym joined = "expense \<times> category \<times> user"

text \<open>
  \<open>FROM expenses e JOIN categories c ON c.id = e.category_id JOIN users u ON u.id =
  e.user_id\<close>.
\<close>

definition from_join :: "db \<Rightarrow> joined list" where
  "from_join d =
     [(e, c, u). e \<leftarrow> expenses_tbl d, c \<leftarrow> categories_tbl d, c_id c = e_category_id e,
                 u \<leftarrow> users_tbl d, u_id u = e_user_id e]"

fun holds :: "where_clause \<Rightarrow> joined \<Rightarrow> bool" where
  "holds (UserIdEq p) (e, c, u) = (case p of None \<Rightarrow> False | Some n \<Rightarrow> e_user_id e = n)"
| "holds (CategoryIdEq n) (e, c, u) = (e_category_id e = n)"
| "holds (ExpenseDateGe s) (e, c, u) = (s \<le> e_expense_date e)"
| "holds (ExpenseDateLe s) (e, c, u) = (e_expense_date e \<le> s)"
| "holds (IsEssentialEq n) (e, c, u) = (e_is_essential e = n)"

fun bindable :: "where_clause \<Rightarrow> bool" where
  "bindable (UserIdEq p) = (case p of None \<Rightarrow> True | Some n \<Rightarrow> sqlite_int n)"
| "bindable (CategoryIdEq n) = sqlite_int n"
| "bindable (ExpenseDateGe s) = True"
| "bindable (ExpenseDateLe s) = True"
| "bindable (IsEssentialEq n) = sqlite_int n"

text \<open>\<open>ORDER BY e.expense_date DESC, e.id DESC\<close>.\<close>

definition order_key :: "joined \<Rightarrow> string \<times> int" where
  "order_key j = (e_expense_date (fst j), e_id (fst j))"

text \<open>
  The listing's \<open>db.execute(...).fetchall()\<close>, before the projection to the seven
  columns: the join, the conjunction of the clauses, the order.
\<close>

definition select_expenses :: "db \<Rightarrow> where_clause list \<Rightarrow> py_error + joined list" where
  "select_expenses d ws =
     (if list_all bindable ws
      then Inr (rev (sort_key order_key
             (filter (\<lambda>j. list_all (\<lambda>w. holds w j) ws) (from_join d))))
      else Inl OverflowError)"

fun select_row :: "joined \<Rightarrow> row" where
  "select_row (e, c, u) =
     \<lparr>r_id = e_id e, r_amount = e_amount e, r_description = e_description e,
      r_expense_date = e_expense_date e, r_is_essential = e_is_essential e,
      r_category_name = c_name c, r_owner = u_username u\<rparr>"

text \<open>The loop over \<open>rows\<close> that computes \<open>total\<close> and \<open>totals_by_category\<close>.\<close>

fun totals_loop ::
  "(pyfloat \<Rightarrow> pyfloat \<Rightarrow> pyfloat) \<Rightarrow> row list \<Rightarrow> pyfloat \<times> (string \<times> pyfloat) list
     \<Rightarrow> pyfloat \<times> (string \<times> pyfloat) list" where
  "totals_loop fadd [] acc = acc"
| "totals_loop fadd (r # rs) (total', totals_by_category) =
     (let amt = r_amount r;
          cname = r_category_name r
      in totals_loop fadd rs
           (fadd total' amt,
            dict_set totals_by_category cname
              (fadd (dict_get totals_by_category cname (Finite 0)) amt)))"

text \<open>The rows the listing query returns for a request, or the exception it raises.\<close>

definition listing_query :: "session \<Rightarrow> request \<Rightarrow> db \<Rightarrow> py_error + joined list" where
  "listing_query sess req d =
     (let category_id = py_strip (dict_get (req_args req) ''category_id'' '''');
          date_from = py_strip (dict_get (req_args req) ''from'' '''');
          date_to = py_strip (dict_get (req_args req) ''to'' '''');
          essential = py_strip (dict_get (req_args req) ''essential'' '''')
      in case where_clauses sess category_id date_from date_to essential of
           Inl err \<Rightarrow> Inl err
         | Inr ws \<Rightarrow> select_expenses d ws)"

definition expenses_view :: "(pyfloat \<Rightarrow> pyfloat \<Rightarrow> pyfloat) \<Rightarrow> view" where
  "expenses_view fadd sess req d =
     (case listing_query sess req d of
        Inl err \<Rightarrow> raised err d
      | Inr js \<Rightarrow>
          let rows = map select_row js;
              (total', totals_by_category) = totals_loop fadd rows (Finite 0, [])
          in \<lparr>resp = Render (ExpensesHtml
                 \<lparr>l_expenses = rows, l_categories = select_categories d, l_total = total',
                  l_totals_by_category = totals_by_category,
                  l_filters =
                    [(''category_id'', py_strip (dict_get (req_args req) ''category_id'' '''')),
                     (''from'', py_strip (dict_get (req_args req) ''from'' '''')),
                     (''to'', py_strip (dict_get (req_args req) ''to'' '''')),
                     (''essential'', py_strip (dict_get (req_args req) ''essential'' ''''))],
                  l_admin = is_admin sess\<rparr>),
               flashed = [], store = d\<rparr>)"

definition expenses :: "(pyfloat \<Rightarrow> pyfloat \<Rightarrow> pyfloat) \<Rightarrow> view" where
  "expenses fadd = login_required (expenses_view fadd)"

section \<open>Adding, editing and deleting an expense\<close>

text \<open>
  The validation of the submitted fields, which \<open>add_expense\<close> and \<open>edit_expense\<close>
  both write out: every violated rule appends its message.  \<open>float_str\<close> is
  \<open>float(amount)\<close>, None when it raises ValueError.
\<close>

definition form_errors ::
  "(string \<Rightarrow> pyfloat option) \<Rightarrow> string \<Rightarrow> string \<Rightarrow> string \<Rightarrow> string \<Rightarrow> string list" where
  "form_errors float_str category_id amount description expense_date =
     (if \<not> py_isdigit category_id then [''Please select a valid category.''] else []) @
     (case float_str amount of
        None \<Rightarrow> [''Please enter a valid number for amount.'']
      | Some amount_f \<Rightarrow>
          if float_le0 amount_f then [''Amount must be greater than 0.''] else []) @
     (if description = [] then [''Description is required.''] else []) @
     (if expense_date = [] then [''Date is required (YYYY-MM-DD).''] else [])"

definition add_expense_view :: "(string \<Rightarrow> pyfloat option) \<Rightarrow> view" where
  "add_expense_view float_str sess req d =
     (let categories = select_categories d in
      if req_method req = ''POST'' then
        let category_id = py_strip (dict_get (req_form req) ''category_id'' '''');
            amount = py_strip (dict_get (req_form req) ''amount'' '''');
            description = py_strip (dict_get (req_form req) ''description'' '''');
            expense_date = py_strip (dict_get (req_form req) ''expense_date'' '''');
            is_essential = (if map_of (req_form req) ''is_essential'' = Some ''on'' then 1 else 0);
            errors = form_errors float_str category_id amount description expense_date
        in if errors \<noteq> []
           then \<lparr>resp = Render (AddExpenseHtml categories (req_form req)),
                 flashed = map (\<lambda>e. (e, ''warning'')) errors, store = d\<rparr>
           else (case py_int category_id of
                   Inl err \<Rightarrow> raised err d
                 | Inr cid \<Rightarrow>
                     (case float_str amount of
                        None \<Rightarrow> raised ValueError d
                      | Some amt \<Rightarrow>
                          (case insert_expense d (current_user_id sess) cid amt description
                                  expense_date is_essential of
                             Inl err \<Rightarrow> raised err d
                           | Inr d' \<Rightarrow>
                               \<lparr>resp = Redirect Expenses,
                                flashed = [(''Expense added successfully.'', ''success'')],
                                store = d'\<rparr>)))
      else \<lparr>resp = Render (AddExpenseHtml categories []), flashed = [], store = d\<rparr>)"

definition add_expense :: "(string \<Rightarrow> pyfloat option) \<Rightarrow> view" where
  "add_expense float_str = login_required (add_expense_view float_str)"

text \<open>
  The permission test of \<open>edit_expense\<close> and \<open>delete_expense\<close>:
  \<open>not is_admin() and int(expense["user_id"]) != int(current_user_id())\<close>.
\<close>

definition permission_denied :: "session \<Rightarrow> expense \<Rightarrow> py_error + bool" where
  "permission_denied sess expense =
     (if is_admin sess then Inr False
      else case current_user_id sess of
        None \<Rightarrow> Inl TypeError
      | Some uid \<Rightarrow> Inr (e_user_id expense \<noteq> uid))"

definition edit_expense_view :: "(string \<Rightarrow> pyfloat option) \<Rightarrow> int \<Rightarrow> view" where
  "edit_expense_view float_str expense_id sess req d =
     (if \<not> sqlite_int expense_id then raised OverflowError d
      else case select_expense d expense_id of
        None \<Rightarrow>
          \<lparr>resp = Redirect Expenses, flashed = [(''Expense not found.'', ''danger'')],
           store = d\<rparr>
      | Some expense \<Rightarrow>
          (case permission_denied sess expense of
             Inl err \<Rightarrow> raised err d
           | Inr True \<Rightarrow>
               \<lparr>resp = Redirect Expenses,
                flashed = [(''You do not have permission to edit this item.'', ''danger'')],
                store = d\<rparr>
           | Inr False \<Rightarrow>
               let categories = select_categories d in
               if req_method req = ''POST'' then
                 let category_id = py_strip (dict_get (req_form req) ''category_id'' '''');
                     amount = py_strip (dict_get (req_form req) ''amount'' '''');
                     description = py_strip (dict_get (req_form req) ''description'' '''');
                     expense_date = py_strip (dict_get (req_form req) ''expense_date'' '''');
                     is_essential =
                       (if map_of (req_form req) ''is_essential'' = Some ''on'' then 1 else 0);
                     errors = form_errors float_str category_id amount description expense_date
                 in if errors \<noteq> []
                    then \<lparr>resp = Render (EditExpenseHtml categories expense
                                   (Submitted (req_form req))),
                          flashed = map (\<lambda>e. (e, ''warning'')) errors, store = d\<rparr>
                    else (case py_int category_id of
                            Inl err \<Rightarrow> raised err d
                          | Inr cid \<Rightarrow>
                              (case float_str amount of
                                 None \<Rightarrow> raised ValueError d
                               | Some amt \<Rightarrow>
                                   (case update_expense d cid amt description expense_date
                                           is_essential expense_id of
                                      Inl err \<Rightarrow> raised err d
                                    | Inr d' \<Rightarrow>
                                        \<lparr>resp = Redirect Expenses,
                                         flashed = [(''Expense updated.'', ''success'')],
                                         store = d'\<rparr>)))
               else \<lparr>resp = Render (EditExpenseHtml categories expense (Stored expense)),
                     flashed = [], store = d\<rparr>))"

definition edit_expense :: "(string \<Rightarrow> pyfloat option) \<Rightarrow> int \<Rightarrow> view" where
  "edit_expense float_str expense_id = login_required (edit_expense_view float_str expense_id)"

text \<open>\<open>delete_expense\<close>, which the route runs for POST only.\<close>

definition delete_expense_view :: "int \<Rightarrow> view" where
  "delete_expense_view expense_id sess req d =
     (if \<not> sqlite_int expense_id then raised OverflowError d
      else case select_expense d expense_id of
        None \<Rightarrow>
          \<lparr>resp = Redirect Expenses, flashed = [(''Expense not found.'', ''danger'')],
           store = d\<rparr>
      | Some exp' \<Rightarrow>
          (case permission_denied sess exp' of
             Inl err \<Rightarrow> raised err d
           | Inr True \<Rightarrow>
               \<lparr>resp = Redirect Expenses,
                flashed = [(''You do not have permission to delete this item.'', ''danger'')],
                store = d\<rparr>
           | Inr False \<Rightarrow>
               \<lparr>resp = Redirect Expenses, flashed = [(''Expense deleted.'', ''info'')],
                store = delete_expense_row d expense_id\<rparr>))"

definition delete_expense :: "int \<Rightarrow> view" where
  "delete_expense expense_id = login_required (delete_expense_view expense_id)"

section \<open>Categories (administrators)\<close>

definition categories_view :: view where
  "categories_view sess req d =
     (if req_method req = ''POST'' then
        let name = py_strip (dict_get (req_form req) ''name'' '''') in
        if name = []
        then \<lparr>resp = Redirect Categories,
              flashed = [(''Category name is required.'', ''warning'')], store = d\<rparr>
        else (case insert_category d name of
                Inl err \<Rightarrow>
                  \<lparr>resp = Redirect Categories,
                   flashed = [(''That category already exists.'', ''warning'')], store = d\<rparr>
              | Inr d' \<Rightarrow>
                  \<lparr>resp = Redirect Categories, flashed = [(''Category added.'', ''success'')],
                   store = d'\<rparr>)
      else \<lparr>resp = Render (CategoriesHtml (select_categories d)), flashed = [], store = d\<rparr>)"

definition categories :: view where
  "categories = login_required (admin_required categories_view)"

section \<open>The specification's reading of a category id\<close>

text \<open>
  The specification's rule for a category id, in its words: the string parses as a
  positive integer.  The source tests \<open>isdigit()\<close> instead; the two are compared below.
\<close>

definition spec_positive_integer :: "string \<Rightarrow> bool" where
  "spec_positive_integer s = (case py_int s of Inl err \<Rightarrow> False | Inr n \<Rightarrow> 0 < n)"

section \<open>Example data\<close>

text \<open>
  A store after the bootstrap with three expenses, the sessions of its two seed accounts,
  and instances of the two float operations on the values the examples use:
  \<open>float_sample\<close> agrees with \<open>float\<close> on the strings it lists and is applied to no
  other, and \<open>fadd_sample\<close> is float addition where the sum is exact.
\<close>

definition student_session :: session where
  "student_session =
     \<lparr>sess_user_id = Some 1, sess_username = Some ''student'', sess_role = Some ''user''\<rparr>"

definition admin_session :: session where
  "admin_session =
     \<lparr>sess_user_id = Some 2, sess_username = Some ''admin'', sess_role = Some ''admin''\<rparr>"

definition sample_expenses :: "expense list" where
  "sample_expenses =
     [\<lparr>e_id = 1, e_user_id = 1, e_category_id = 1, e_amount = Finite 12.5,
       e_description = ''lunch'', e_expense_date = ''2024-01-01'', e_is_essential = 1\<rparr>,
      \<lparr>e_id = 2, e_user_id = 2, e_category_id = 2, e_amount = Finite 30,
       e_description = ''taxi'', e_expense_date = ''2024-01-02'', e_is_essential = 0\<rparr>,
      \<lparr>e_id = 3, e_user_id = 1, e_category_id = 2, e_amount = Finite 7,
       e_description = ''bus'', e_expense_date = ''2024-01-02'', e_is_essential = 0\<rparr>,
      \<lparr>e_id = 4, e_user_id = 1, e_category_id = 1, e_amount = Finite 4.5,
       e_description = ''snack'', e_expense_date = ''2024-01-02'', e_is_essential = 0\<rparr>]"

definition sample_db :: db where
  "sample_db = (init_db empty_db)\<lparr>expenses_tbl := sample_expenses, expenses_seq := 4\<rparr>"

definition float_sample :: "string \<Rightarrow> pyfloat option" where
  "float_sample s =
     (if s = ''12.50'' then Some (Finite 12.5)
      else if s = ''0'' then Some (Finite 0)
      else if s = ''-3'' then Some (Finite (- 3))
      else None)"

fun fadd_sample :: "pyfloat \<Rightarrow> pyfloat \<Rightarrow> pyfloat" where
  "fadd_sample (Finite a) (Finite b) = Finite (a + b)"
| "fadd_sample NaN b = NaN"
| "fadd_sample a NaN = NaN"
| "fadd_sample PosInf NegInf = NaN"
| "fadd_sample NegInf PosInf = NaN"
| "fadd_sample PosInf b = PosInf"
| "fadd_sample NegInf b = NegInf"
| "fadd_sample (Finite a) b = b"

definition get_request :: "string \<Rightarrow> (string \<times> string) list \<Rightarrow> request" where
  "get_request p args = \<lparr>req_method = ''GET'', req_path = p, req_args = args, req_form = []\<rparr>"

definition post_request :: "string \<Rightarrow> (string \<times> string) list \<Rightarrow> request" where
  "post_request p form = \<lparr>req_method = ''POST'', req_path = p, req_args = [], req_form = form\<rparr>"

text \<open>What the student's unfiltered listing of \<open>sample_db\<close> renders.\<close>

definition sample_listing :: listing where
  "sample_listing =
     \<lparr>l_expenses =
        [\<lparr>r_id = 4, r_amount = Finite 4.5, r_description = ''snack'',
          r_expense_date = ''2024-01-02'', r_is_essential = 0, r_category_name = ''Food'',
          r_owner = ''student''\<rparr>,
         \<lparr>r_id = 3, r_amount = Finite 7, r_description = ''bus'',
          r_expense_date = ''2024-01-02'', r_is_essential = 0, r_category_name = ''Transport'',
          r_owner = ''student''\<rparr>,
         \<lparr>r_id = 1, r_amount = Finite 12.5, r_description = ''lunch'',
          r_expense_date = ''2024-01-01'', r_is_essential = 1, r_category_name = ''Food'',
          r_owner = ''student''\<rparr>],
      l_categories =
        [\<lparr>c_id = 5, c_name = ''Bills''\<rparr>, \<lparr>c_id = 1, c_name = ''Food''\<rparr>,
         \<lparr>c_id = 6, c_name = ''Other''\<rparr>, \<lparr>c_id = 3, c_name = ''Rent''\<rparr>,
         \<lparr>c_id = 4, c_name = ''Shopping''\<rparr>, \<lparr>c_id = 2, c_name = ''Transport''\<rparr>],
      l_total = Finite 24,
      l_totals_by_category = [(''Food'', Finite 17), (''Transport'', Finite 7)],
      l_filters = [(''category_id'', []), (''from'', []), (''to'', []), (''essential'', [])],
      l_admin = False\<rparr>"

section \<open>Facts about the example data\<close>

lemma sample_listing_rendered:
  "resp (expenses fadd_sample student_session (get_request ''/expenses'' []) sample_db) =
     Render (ExpensesHtml sample_listing)"
  by code_simp

lemma student_not_admin: "sess_role student_session \<noteq> Some ''admin''"
  by (simp add: student_session_def)

lemma student_user_id: "sess_user_id student_session = Some 1"
  by (simp add: student_session_def)

section \<open>The guards\<close>

text \<open>
  C7 (corrected).  When \<open>admin_required\<close> runs with a session whose role is not
  \<open>admin\<close>, the outcome is the redirect to \<open>index\<close> (the home page, not the expense
  listing) with the notice "Admin access required."; the wrapped view does not run: the
  outcome is the same for every view, and the store is the one the request found.
\<close>

theorem admin_required_rejects:
  "sess_role sess \<noteq> Some ''admin'' \<Longrightarrow>
     admin_required view_func sess req d =
       \<lparr>resp = Redirect Index, flashed = [(''Admin access required.'', ''danger'')], store = d\<rparr>"
  by (simp add: admin_required_def)

theorem admin_required_rejects_witness:
  "sess_role student_session \<noteq> Some ''admin'' \<and>
   admin_required categories_view student_session (post_request ''/categories'' [(''name'', ''Pets'')])
       sample_db =
     \<lparr>resp = Redirect Index, flashed = [(''Admin access required.'', ''danger'')],
      store = sample_db\<rparr>"
  using admin_required_rejects [OF student_not_admin] student_not_admin by simp

text \<open>
  The claim as written fails: a student asking for the category page is sent to \<open>index\<close>,
  which is not the expense listing.
\<close>

theorem admin_required_listing_counterexample:
  "resp (categories student_session (get_request ''/categories'' []) sample_db) = Redirect Index \<and>
   resp (categories student_session (get_request ''/categories'' []) sample_db) \<noteq> Redirect Expenses"
  by (simp add: categories_def login_required_def admin_required_def student_session_def)

section \<open>The listing query\<close>

lemma from_join_iff:
  "(e, c, u) \<in> set (from_join d) \<longleftrightarrow>
     e \<in> set (expenses_tbl d) \<and> c \<in> set (categories_tbl d) \<and> c_id c = e_category_id e \<and>
     u \<in> set (users_tbl d) \<and> u_id u = e_user_id e"
  by (auto simp: from_join_def)

lemma set_select_expenses:
  "select_expenses d ws = Inr js \<Longrightarrow>
     set js = {j \<in> set (from_join d). \<forall>w \<in> set ws. holds w j}"
  by (auto simp: select_expenses_def list_all_iff split: if_splits)

lemma where_clauses_user_first:
  assumes "\<not> is_admin sess" and "where_clauses sess c f t e = Inr ws"
  shows "\<exists>rest. ws = UserIdEq (current_user_id sess) # rest"
  using assms by (auto simp: where_clauses_def Let_def split: if_splits sum.splits)

lemma expenses_render:
  assumes "resp (expenses fadd sess req d) = Render (ExpensesHtml l)"
  shows "\<exists>js. listing_query sess req d = Inr js \<and> l_expenses l = map select_row js"
  using assms
  by (auto simp: expenses_def login_required_def expenses_view_def raised_def Let_def
      split: if_splits sum.splits prod.splits)

lemma listing_query_clauses:
  assumes "listing_query sess req d = Inr js"
  shows "\<exists>ws. where_clauses sess
      (py_strip (dict_get (req_args req) ''category_id'' []))
      (py_strip (dict_get (req_args req) ''from'' []))
      (py_strip (dict_get (req_args req) ''to'' []))
      (py_strip (dict_get (req_args req) ''essential'' [])) = Inr ws \<and>
    select_expenses d ws = Inr js"
  using assms by (auto simp: listing_query_def Let_def split: sum.splits)

text \<open>
  C1 (confirmed).  For a session whose role is not \<open>admin\<close>, whatever the request's
  filter parameters: the rows the listing renders are the projections of the rows of its
  query, and each of these is an expense of the store whose \<open>user_id\<close> is the session's
  user id, joined with that user.  The restriction to the session's user id is the first
  clause of every WHERE the builder returns, for all values of the four parameters.
\<close>

theorem listing_owner_only:
  assumes "sess_role sess \<noteq> Some ''admin''" and "sess_user_id sess = Some uid"
  shows "(\<forall>l. resp (expenses fadd sess req d) = Render (ExpensesHtml l) \<longrightarrow>
            (\<exists>js. listing_query sess req d = Inr js \<and> l_expenses l = map select_row js \<and>
               (\<forall>j \<in> set js. fst j \<in> set (expenses_tbl d) \<and> e_user_id (fst j) = uid \<and>
                  snd (snd j) \<in> set (users_tbl d) \<and> u_id (snd (snd j)) = uid))) \<and>
         (\<forall>c f t e ws. where_clauses sess c f t e = Inr ws \<longrightarrow>
            (\<exists>rest. ws = UserIdEq (Some uid) # rest))"
proof (intro conjI allI impI)
  have na: "\<not> is_admin sess" using assms(1) by (simp add: is_admin_def)
  {
    fix c f t e ws
    assume "where_clauses sess c f t e = Inr ws"
    from where_clauses_user_first [OF na this] assms(2)
    show "\<exists>rest. ws = UserIdEq (Some uid) # rest" by (simp add: current_user_id_def)
  }
  note first = this
  fix l
  assume r: "resp (expenses fadd sess req d) = Render (ExpensesHtml l)"
  then obtain js where q: "listing_query sess req d = Inr js"
    and l: "l_expenses l = map select_row js"
    using expenses_render by blast
  from listing_query_clauses [OF q] obtain ws where
    w: "where_clauses sess
      (py_strip (dict_get (req_args req) ''category_id'' []))
      (py_strip (dict_get (req_args req) ''from'' []))
      (py_strip (dict_get (req_args req) ''to'' []))
      (py_strip (dict_get (req_args req) ''essential'' [])) = Inr ws"
    and s: "select_expenses d ws = Inr js"
    by blast
  from first [OF w] have u: "UserIdEq (Some uid) \<in> set ws" by auto
  have "\<forall>j \<in> set js. fst j \<in> set (expenses_tbl d) \<and> e_user_id (fst j) = uid \<and>
              snd (snd j) \<in> set (users_tbl d) \<and> u_id (snd (snd j)) = uid"
  proof
    fix j
    assume "j \<in> set js"
    then have a: "j \<in> set (from_join d)" and b: "holds (UserIdEq (Some uid)) j"
      using set_select_expenses [OF s] u by auto
    obtain e c u' where j: "j = (e, c, u')" by (cases j) auto
    from a b show "fst j \<in> set (expenses_tbl d) \<and> e_user_id (fst j) = uid \<and>
              snd (snd j) \<in> set (users_tbl d) \<and> u_id (snd (snd j)) = uid"
      unfolding j by (auto simp: from_join_iff)
  qed
  with q l show "\<exists>js. listing_query sess req d = Inr js \<and> l_expenses l = map select_row js \<and>
               (\<forall>j \<in> set js. fst j \<in> set (expenses_tbl d) \<and> e_user_id (fst j) = uid \<and>
                  snd (snd j) \<in> set (users_tbl d) \<and> u_id (snd (snd j)) = uid)"
    by blast
qed

theorem listing_owner_only_witness:
  "sess_role student_session \<noteq> Some ''admin'' \<and> sess_user_id student_session = Some 1 \<and>
   resp (expenses fadd_sample student_session (get_request ''/expenses'' []) sample_db) =
     Render (ExpensesHtml sample_listing) \<and>
   (\<exists>js. listing_query student_session (get_request ''/expenses'' []) sample_db = Inr js \<and>
      l_expenses sample_listing = map select_row js \<and>
      (\<forall>j \<in> set js. fst j \<in> set (expenses_tbl sample_db) \<and> e_user_id (fst j) = 1 \<and>
         snd (snd j) \<in> set (users_tbl sample_db) \<and> u_id (snd (snd j)) = 1))"
proof -
  note t = listing_owner_only [OF student_not_admin student_user_id,
      of fadd_sample "get_request ''/expenses'' []" sample_db]
  from t sample_listing_rendered
  have "\<exists>js. listing_query student_session (get_request ''/expenses'' []) sample_db = Inr js \<and>
      l_expenses sample_listing = map select_row js \<and>
      (\<forall>j \<in> set js. fst j \<in> set (expenses_tbl sample_db) \<and> e_user_id (fst j) = 1 \<and>
         snd (snd j) \<in> set (users_tbl sample_db) \<and> u_id (snd (snd j)) = 1)"
    by blast
  with student_not_admin student_user_id sample_listing_rendered show ?thesis by blast
qed

section \<open>The totals\<close>

lemma map_of_dict_set: "map_of (dict_set m k v) = (map_of m)(k \<mapsto> v)"
  by (induction m) (auto simp: fun_eq_iff)

lemma keys_dict_set:
  "map fst (dict_set m k v) = (if k \<in> set (map fst m) then map fst m else map fst m @ [k])"
  by (induction m) auto

lemma dict_get_dict_set:
  "dict_get (dict_set m k v) c dflt = (if c = k then v else dict_get m c dflt)"
  by (simp add: dict_get_def map_of_dict_set)

lemma map_of_dict_get:
  "c \<in> set (map fst m) \<Longrightarrow> map_of m c = Some (dict_get m c dflt)"
  by (cases "map_of m c") (auto simp: dict_get_def map_of_eq_None_iff)

lemma first_seen_Cons:
  "rev (remdups (rev (x # xs))) = x # filter (\<lambda>k. k \<noteq> x) (rev (remdups (rev xs)))"
proof -
  have "remdups (rev xs @ [x]) = filter (\<lambda>k. k \<noteq> x) (remdups (rev xs)) @ [x]"
    by (induction xs rule: rev_induct) (auto simp: remdups_filter [symmetric] intro: filter_cong)
  then show ?thesis by (simp add: rev_filter)
qed

lemma totals_loop_total:
  "fst (totals_loop fadd rs (t, m)) = foldl fadd t (map r_amount rs)"
  by (induction rs arbitrary: t m) (simp_all add: Let_def)

lemma totals_loop_keys:
  "map fst (snd (totals_loop fadd rs (t, m))) =
     map fst m @ filter (\<lambda>k. k \<notin> set (map fst m))
                   (rev (remdups (rev (map r_category_name rs))))"
proof (induction rs arbitrary: t m)
  case Nil
  then show ?case by simp
next
  case (Cons r rs)
  define k where "k = r_category_name r"
  define F where "F = rev (remdups (rev (map r_category_name rs)))"
  define K where "K = set (map fst m)"
  define v where "v = fadd (dict_get m k (Finite 0)) (r_amount r)"
  have step: "totals_loop fadd (r # rs) (t, m) =
      totals_loop fadd rs (fadd t (r_amount r), dict_set m k v)"
    by (simp add: Let_def k_def v_def)
  have ih: "map fst (snd (totals_loop fadd rs (fadd t (r_amount r), dict_set m k v))) =
      map fst (dict_set m k v) @ filter (\<lambda>x. x \<notin> set (map fst (dict_set m k v))) F"
    unfolding F_def by (rule Cons.IH)
  have fs: "rev (remdups (rev (map r_category_name (r # rs)))) =
      k # filter (\<lambda>x. x \<noteq> k) F"
    unfolding F_def k_def by (simp only: list.map first_seen_Cons)
  show ?case
  proof (cases "k \<in> K")
    case True
    have keys: "map fst (dict_set m k v) = map fst m"
      using True by (simp only: keys_dict_set K_def if_True)
    have "filter (\<lambda>x. x \<notin> K) (filter (\<lambda>x. x \<noteq> k) F) = filter (\<lambda>x. x \<notin> K) F"
      using True by (induction F) auto
    then show ?thesis
      using True unfolding step ih fs keys K_def by simp
  next
    case False
    have keys: "map fst (dict_set m k v) = map fst m @ [k]"
      using False by (simp only: keys_dict_set K_def if_False)
    have "filter (\<lambda>x. x \<notin> set (map fst m @ [k])) F =
          filter (\<lambda>x. x \<notin> K) (filter (\<lambda>x. x \<noteq> k) F)"
      unfolding K_def by (induction F) auto
    then show ?thesis
      using False unfolding step ih fs keys K_def by simp
  qed
qed

lemma totals_loop_values:
  "c \<in> set (map fst m) \<union> set (map r_category_name rs) \<Longrightarrow>
     map_of (snd (totals_loop fadd rs (t, m))) c =
       Some (foldl fadd (dict_get m c (Finite 0))
               (map r_amount (filter (\<lambda>r. r_category_name r = c) rs)))"
proof (induction rs arbitrary: t m)
  case Nil
  then show ?case by (simp add: map_of_dict_get)
next
  case (Cons r rs)
  define k where "k = r_category_name r"
  define v where "v = fadd (dict_get m k (Finite 0)) (r_amount r)"
  have step: "totals_loop fadd (r # rs) (t, m) =
      totals_loop fadd rs (fadd t (r_amount r), dict_set m k v)"
    by (simp add: Let_def k_def v_def)
  have mem: "c \<in> set (map fst (dict_set m k v)) \<union> set (map r_category_name rs)"
    using Cons.prems by (auto simp: keys_dict_set k_def)
  have ih: "map_of (snd (totals_loop fadd rs (fadd t (r_amount r), dict_set m k v))) c =
      Some (foldl fadd (dict_get (dict_set m k v) c (Finite 0))
              (map r_amount (filter (\<lambda>r. r_category_name r = c) rs)))"
    by (rule Cons.IH [OF mem])
  show ?case
    unfolding step ih by (simp add: dict_get_dict_set k_def v_def)
qed

lemma expenses_render_totals:
  assumes "resp (expenses fadd sess req d) = Render (ExpensesHtml l)"
  shows "(l_total l, l_totals_by_category l) = totals_loop fadd (l_expenses l) (Finite 0, [])"
  using assms
  by (auto simp: expenses_def login_required_def expenses_view_def raised_def Let_def
      split: if_splits sum.splits prod.splits)

text \<open>
  C4 (confirmed).  Whenever the listing renders, its rows are the rows of the filtered
  query of the same request; the grand total is the sum, from 0.0 and in row order, of
  the amounts of exactly these rows; the keys of \<open>totals_by_category\<close> are the category
  names of the rows in first-seen order; each subtotal is the sum, from 0.0 and in row
  order, of the amounts of the rows of that category; and with no rows the total is 0.0
  and the mapping is empty.  The sums are taken with the addition \<open>fadd\<close> the loop uses.
\<close>

theorem totals_match_rows:
  assumes "resp (expenses fadd sess req d) = Render (ExpensesHtml l)"
  shows "(\<exists>js. listing_query sess req d = Inr js \<and> l_expenses l = map select_row js) \<and>
         l_total l = foldl fadd (Finite 0) (map r_amount (l_expenses l)) \<and>
         map fst (l_totals_by_category l) =
           rev (remdups (rev (map r_category_name (l_expenses l)))) \<and>
         (\<forall>c \<in> set (map r_category_name (l_expenses l)).
            map_of (l_totals_by_category l) c =
              Some (foldl fadd (Finite 0)
                      (map r_amount (filter (\<lambda>r. r_category_name r = c) (l_expenses l))))) \<and>
         (l_expenses l = [] \<longrightarrow> l_total l = Finite 0 \<and> l_totals_by_category l = [])"
proof -
  let ?rs = "l_expenses l"
  from expenses_render_totals [OF assms]
  have t: "l_total l = fst (totals_loop fadd ?rs (Finite 0, []))"
    and m: "l_totals_by_category l = snd (totals_loop fadd ?rs (Finite 0, []))"
    by (metis fst_conv, metis snd_conv)
  have 1: "l_total l = foldl fadd (Finite 0) (map r_amount ?rs)"
    unfolding t by (rule totals_loop_total)
  have 2: "map fst (l_totals_by_category l) = rev (remdups (rev (map r_category_name ?rs)))"
    unfolding m totals_loop_keys by simp
  have 3: "\<forall>c \<in> set (map r_category_name ?rs).
            map_of (l_totals_by_category l) c =
              Some (foldl fadd (Finite 0)
                      (map r_amount (filter (\<lambda>r. r_category_name r = c) ?rs)))"
  proof
    fix c
    assume "c \<in> set (map r_category_name ?rs)"
    then have "c \<in> set (map fst ([] :: (string \<times> pyfloat) list)) \<union> set (map r_category_name ?rs)"
      by simp
    from totals_loop_values [OF this]
    show "map_of (l_totals_by_category l) c =
              Some (foldl fadd (Finite 0)
                      (map r_amount (filter (\<lambda>r. r_category_name r = c) ?rs)))"
      unfolding m by (simp add: dict_get_def)
  qed
  have 4: "l_expenses l = [] \<longrightarrow> l_total l = Finite 0 \<and> l_totals_by_category l = []"
    unfolding t m by simp
  from expenses_render [OF assms] 1 2 3 4 show ?thesis by blast
qed

theorem totals_match_rows_witness:
  "resp (expenses fadd_sample student_session (get_request ''/expenses'' []) sample_db) =
     Render (ExpensesHtml sample_listing) \<and>
   l_total sample_listing = Finite 24 \<and>
   l_total sample_listing = foldl fadd_sample (Finite 0) (map r_amount (l_expenses sample_listing)) \<and>
   map fst (l_totals_by_category sample_listing) = [''Food'', ''Transport''] \<and>
   map fst (l_totals_by_category sample_listing) =
     rev (remdups (rev (map r_category_name (l_expenses sample_listing)))) \<and>
   map_of (l_totals_by_category sample_listing) ''Food'' = Some (Finite 17) \<and>
   map_of (l_totals_by_category sample_listing) ''Food'' =
     Some (foldl fadd_sample (Finite 0)
             (map r_amount (filter (\<lambda>r. r_category_name r = ''Food'') (l_expenses sample_listing))))"
proof -
  note t = totals_match_rows [OF sample_listing_rendered]
  have f: "''Food'' \<in> set (map r_category_name (l_expenses sample_listing))"
    by (simp add: sample_listing_def)
  have v: "l_total sample_listing = Finite 24"
    "map fst (l_totals_by_category sample_listing) = [''Food'', ''Transport'']"
    "map_of (l_totals_by_category sample_listing) ''Food'' = Some (Finite 17)"
    by (simp_all add: sample_listing_def)
  from t f have "map_of (l_totals_by_category sample_listing) ''Food'' =
     Some (foldl fadd_sample (Finite 0)
             (map r_amount (filter (\<lambda>r. r_category_name r = ''Food'') (l_expenses sample_listing))))"
    by blast
  with t v sample_listing_rendered show ?thesis by blast
qed

section \<open>The order of the listing\<close>

lemma order_key_select_row:
  "order_key j = (r_expense_date (select_row j), r_id (select_row j))"
  by (cases j) (auto simp: order_key_def)

lemma select_expenses_sorted:
  assumes "select_expenses d ws = Inr js"
  shows "sorted_wrt (\<lambda>a b. order_key b \<le> order_key a) js"
proof -
  from assms obtain xs where js: "js = rev (sort_key order_key xs)"
    by (auto simp: select_expenses_def split: if_splits)
  have "sorted (map order_key (sort_key order_key xs))" by (rule sorted_sort_key)
  then have "sorted_wrt (\<lambda>a b. order_key a \<le> order_key b) (sort_key order_key xs)"
    by (simp add: sorted_wrt_map)
  then show ?thesis unfolding js by (simp add: sorted_wrt_rev)
qed

text \<open>
  C8 (confirmed).  Whenever the listing renders, for every request (so every combination
  of filters), its rows are in descending order of expense date, and rows of equal date
  are in descending order of identifier.
\<close>

theorem listing_ordered:
  assumes "resp (expenses fadd sess req d) = Render (ExpensesHtml l)"
  shows "sorted_wrt (\<lambda>a b. r_expense_date b < r_expense_date a \<or>
                        (r_expense_date a = r_expense_date b \<and> r_id b \<le> r_id a))
           (l_expenses l)"
proof -
  from expenses_render [OF assms] obtain js where q: "listing_query sess req d = Inr js"
    and l: "l_expenses l = map select_row js"
    by blast
  from listing_query_clauses [OF q] obtain ws where "select_expenses d ws = Inr js"
    by blast
  then have "sorted_wrt (\<lambda>a b. order_key b \<le> order_key a) js"
    by (rule select_expenses_sorted)
  then have "sorted_wrt (\<lambda>a b. r_expense_date (select_row b) < r_expense_date (select_row a) \<or>
               (r_expense_date (select_row a) = r_expense_date (select_row b) \<and>
                r_id (select_row b) \<le> r_id (select_row a))) js"
    by (rule sorted_wrt_mono_rel [rotated]) (auto simp: order_key_select_row less_eq_prod_def)
  then show ?thesis unfolding l by (simp add: sorted_wrt_map)
qed

theorem listing_ordered_witness:
  "resp (expenses fadd_sample student_session (get_request ''/expenses'' []) sample_db) =
     Render (ExpensesHtml sample_listing) \<and>
   map r_expense_date (l_expenses sample_listing) = [''2024-01-02'', ''2024-01-02'', ''2024-01-01''] \<and>
   map r_id (l_expenses sample_listing) = [4, 3, 1] \<and>
   sorted_wrt (\<lambda>a b. r_expense_date b < r_expense_date a \<or>
                        (r_expense_date a = r_expense_date b \<and> r_id b \<le> r_id a))
     (l_expenses sample_listing)"
proof -
  have "map r_expense_date (l_expenses sample_listing) = [''2024-01-02'', ''2024-01-02'', ''2024-01-01'']"
    and "map r_id (l_expenses sample_listing) = [4, 3, 1]"
    by (simp_all add: sample_listing_def)
  with listing_ordered [OF sample_listing_rendered] sample_listing_rendered
  show ?thesis by blast
qed

section \<open>The category filter\<close>

lemma dict_get_filter_key:
  "dict_get (filter (\<lambda>p. fst p \<noteq> k) xs) k' dflt =
     (if k' = k then dflt else dict_get xs k' dflt)"
  by (induction xs) (auto simp: dict_get_def)

lemma py_strip_Nil: "py_strip [] = []"
  by (simp add: py_strip_def)

lemma not_isdigit_Nil: "\<not> py_isdigit []"
  by (simp add: py_isdigit_def)

lemma filter_rev_sort_key:
  "filter P (rev (sort_key k ys)) = rev (sort_key k (filter P ys))"
  by (metis rev_filter filter_sort)

lemma select_expenses_category:
  assumes "sqlite_int n"
  shows "select_expenses d (w1 @ CategoryIdEq n # w2) =
           map_sum id (filter (\<lambda>j. e_category_id (fst j) = n)) (select_expenses d (w1 @ w2))"
proof -
  have h: "holds (CategoryIdEq n) j = (e_category_id (fst j) = n)" for j
    by (cases j) auto
  have f: "filter (\<lambda>j. list_all (\<lambda>w. holds w j) (w1 @ CategoryIdEq n # w2)) xs =
        filter (\<lambda>j. e_category_id (fst j) = n)
          (filter (\<lambda>j. list_all (\<lambda>w. holds w j) (w1 @ w2)) xs)" for xs
    by (induction xs) (auto simp: h)
  have b: "list_all bindable (w1 @ CategoryIdEq n # w2) = list_all bindable (w1 @ w2)"
    using assms by simp
  show ?thesis
    unfolding select_expenses_def b f filter_rev_sort_key [symmetric]
    by simp
qed

lemma where_clauses_not_isdigit:
  "\<not> py_isdigit c \<Longrightarrow> where_clauses sess c f t e = where_clauses sess [] f t e"
  by (simp add: where_clauses_def not_isdigit_Nil)

lemma where_clauses_isdigit:
  assumes "py_isdigit c" and "py_int c = Inr n"
  shows "\<exists>w1 w2. where_clauses sess c f t e = Inr (w1 @ [CategoryIdEq n] @ w2) \<and>
           where_clauses sess [] f t e = Inr (w1 @ w2)"
proof -
  let ?w1 = "if \<not> is_admin sess then [UserIdEq (current_user_id sess)] else []"
  let ?w2 = "(if f \<noteq> [] then [ExpenseDateGe f] else []) @
             (if t \<noteq> [] then [ExpenseDateLe t] else []) @
             (if e = ''0'' then [IsEssentialEq 0]
              else if e = ''1'' then [IsEssentialEq 1] else [])"
  have "where_clauses sess c f t e = Inr (?w1 @ [CategoryIdEq n] @ ?w2)"
    using assms by (simp add: where_clauses_def Let_def)
  moreover have "where_clauses sess [] f t e = Inr (?w1 @ ?w2)"
    by (simp add: where_clauses_def Let_def not_isdigit_Nil)
  ultimately show ?thesis by blast
qed

lemma where_clauses_category_iff:
  assumes "where_clauses sess c f t e = Inr ws"
  shows "(\<exists>n. CategoryIdEq n \<in> set ws) \<longleftrightarrow> py_isdigit c"
  using assms by (auto simp: where_clauses_def Let_def split: if_splits sum.splits)

text \<open>
  C5 (corrected).  The category clause is part of the WHERE exactly when the trimmed
  \<open>category_id\<close> satisfies \<open>isdigit()\<close> (a non-empty string of digits, \<open>0\<close> and
  \<open>007\<close> included).  A value that does not satisfy it gives the listing query the same
  result, rows or exception, as the request without the parameter.  A value that does,
  and that \<open>int\<close> converts to an \<open>n\<close> that fits a SQLite INTEGER, gives the rows of the
  request without the parameter whose \<open>category_id\<close> is \<open>n\<close>.
\<close>

theorem category_filter_isdigit:
  "(\<forall>c f t e ws. where_clauses sess c f t e = Inr ws \<longrightarrow>
      ((\<exists>n. CategoryIdEq n \<in> set ws) \<longleftrightarrow> py_isdigit c)) \<and>
   (\<not> py_isdigit (py_strip (dict_get (req_args req) ''category_id'' [])) \<longrightarrow>
      listing_query sess req d =
        listing_query sess
          (req\<lparr>req_args := filter (\<lambda>p. fst p \<noteq> ''category_id'') (req_args req)\<rparr>) d) \<and>
   (\<forall>n. py_isdigit (py_strip (dict_get (req_args req) ''category_id'' [])) \<and>
        py_int (py_strip (dict_get (req_args req) ''category_id'' [])) = Inr n \<and> sqlite_int n \<longrightarrow>
      listing_query sess req d =
        map_sum id (filter (\<lambda>j. e_category_id (fst j) = n))
          (listing_query sess
             (req\<lparr>req_args := filter (\<lambda>p. fst p \<noteq> ''category_id'') (req_args req)\<rparr>) d))"
proof (intro conjI allI impI)
  fix c f t e ws
  assume "where_clauses sess c f t e = Inr ws"
  then show "(\<exists>n. CategoryIdEq n \<in> set ws) \<longleftrightarrow> py_isdigit c"
    by (rule where_clauses_category_iff)
next
  assume "\<not> py_isdigit (py_strip (dict_get (req_args req) ''category_id'' []))"
  then show "listing_query sess req d =
        listing_query sess
          (req\<lparr>req_args := filter (\<lambda>p. fst p \<noteq> ''category_id'') (req_args req)\<rparr>) d"
    by (simp add: listing_query_def dict_get_filter_key py_strip_Nil
        where_clauses_not_isdigit [of "py_strip (dict_get (req_args req) ''category_id'' [])"])
next
  fix n
  assume a: "py_isdigit (py_strip (dict_get (req_args req) ''category_id'' [])) \<and>
        py_int (py_strip (dict_get (req_args req) ''category_id'' [])) = Inr n \<and> sqlite_int n"
  from where_clauses_isdigit [of "py_strip (dict_get (req_args req) ''category_id'' [])" n sess
      "py_strip (dict_get (req_args req) ''from'' [])"
      "py_strip (dict_get (req_args req) ''to'' [])"
      "py_strip (dict_get (req_args req) ''essential'' [])"] a
  obtain w1 w2 where
    1: "where_clauses sess (py_strip (dict_get (req_args req) ''category_id'' []))
      (py_strip (dict_get (req_args req) ''from'' []))
      (py_strip (dict_get (req_args req) ''to'' []))
      (py_strip (dict_get (req_args req) ''essential'' [])) = Inr (w1 @ [CategoryIdEq n] @ w2)"
    and 2: "where_clauses sess []
      (py_strip (dict_get (req_args req) ''from'' []))
      (py_strip (dict_get (req_args req) ''to'' []))
      (py_strip (dict_get (req_args req) ''essential'' [])) = Inr (w1 @ w2)"
    by blast
  from a have n: "sqlite_int n" by simp
  show "listing_query sess req d =
        map_sum id (filter (\<lambda>j. e_category_id (fst j) = n))
          (listing_query sess
             (req\<lparr>req_args := filter (\<lambda>p. fst p \<noteq> ''category_id'') (req_args req)\<rparr>) d)"
    by (simp add: listing_query_def dict_get_filter_key py_strip_Nil 1 2
        select_expenses_category [OF n])
qed

lemma category_arg:
  "dict_get (req_args (get_request p [(''category_id'', v)])) ''category_id'' [] = v"
  by (simp add: get_request_def dict_get_def)

lemma category_arg_removed:
  "(get_request p [(''category_id'', v)])
     \<lparr>req_args := filter (\<lambda>p. fst p \<noteq> ''category_id'')
                    (req_args (get_request p [(''category_id'', v)]))\<rparr> = get_request p []"
  by (simp add: get_request_def)

lemma abc_not_isdigit: "\<not> py_isdigit (py_strip ''abc'')"
  by code_simp

lemma one_isdigit:
  "py_isdigit (py_strip '' 1 '') \<and> py_int (py_strip '' 1 '') = Inr 1 \<and> sqlite_int 1"
  by code_simp

theorem category_filter_isdigit_witness:
  "\<not> py_isdigit (py_strip ''abc'') \<and>
   listing_query student_session (get_request ''/expenses'' [(''category_id'', ''abc'')]) sample_db =
     listing_query student_session (get_request ''/expenses'' []) sample_db \<and>
   py_isdigit (py_strip '' 1 '') \<and> py_int (py_strip '' 1 '') = Inr 1 \<and> sqlite_int 1 \<and>
   listing_query student_session (get_request ''/expenses'' [(''category_id'', '' 1 '')]) sample_db =
     map_sum id (filter (\<lambda>j. e_category_id (fst j) = 1))
       (listing_query student_session (get_request ''/expenses'' []) sample_db)"
proof -
  note a = category_filter_isdigit [of student_session
      "get_request ''/expenses'' [(''category_id'', ''abc'')]" sample_db,
      unfolded category_arg category_arg_removed]
  note b = category_filter_isdigit [of student_session
      "get_request ''/expenses'' [(''category_id'', '' 1 '')]" sample_db,
      unfolded category_arg category_arg_removed]
  from a abc_not_isdigit
  have 1: "listing_query student_session (get_request ''/expenses'' [(''category_id'', ''abc'')])
      sample_db = listing_query student_session (get_request ''/expenses'' []) sample_db"
    by blast
  from b one_isdigit
  have 2: "listing_query student_session (get_request ''/expenses'' [(''category_id'', '' 1 '')])
      sample_db = map_sum id (filter (\<lambda>j. e_category_id (fst j) = 1))
       (listing_query student_session (get_request ''/expenses'' []) sample_db)"
    by blast
  from 1 2 abc_not_isdigit one_isdigit show ?thesis by blast
qed

text \<open>
  The claim as written fails at \<open>category_id = 0\<close>: the value is not a positive integer,
  yet the clause is applied, and the student's listing is empty where the request without
  the parameter lists three rows.
\<close>

theorem category_filter_zero_counterexample:
  "\<not> spec_positive_integer (py_strip ''0'') \<and>
   listing_query student_session (get_request ''/expenses'' [(''category_id'', ''0'')]) sample_db =
     Inr [] \<and>
   map (e_id \<circ> fst) (projr (listing_query student_session (get_request ''/expenses'' []) sample_db)) =
     [4, 3, 1] \<and>
   listing_query student_session (get_request ''/expenses'' [(''category_id'', ''0'')]) sample_db \<noteq>
     listing_query student_session (get_request ''/expenses'' []) sample_db"
  by code_simp

text \<open>
  A value that passes \<open>isdigit()\<close> can still fail before any row is read: \<open>int\<close> rejects
  the superscript two, and a value of 20 digits does not fit a SQLite INTEGER.
\<close>

lemma category_filter_raises:
  "listing_query student_session (get_request ''/expenses'' [(''category_id'', [CHR 0xB2])])
     sample_db = Inl ValueError \<and>
   listing_query student_session
     (get_request ''/expenses'' [(''category_id'', ''99999999999999999999'')]) sample_db =
     Inl OverflowError"
  by code_simp

section \<open>Editing and deleting\<close>

lemma permission_denied_other:
  assumes "sess_user_id sess = Some uid" and "sess_role sess \<noteq> Some ''admin''"
    and "e_user_id e \<noteq> uid"
  shows "permission_denied sess e = Inr True"
  using assms by (simp add: permission_denied_def is_admin_def current_user_id_def)

text \<open>
  C2 (confirmed).  For a logged-in session that is not an administrator and an expense
  of another user, \<open>edit_expense\<close> (GET or POST, whatever the form) and
  \<open>delete_expense\<close> on that expense's id answer with the redirect to the listing and
  the notice that permission is missing, and the store, so every field of the expense,
  is unchanged.
\<close>

theorem non_owner_forbidden:
  assumes "sess_user_id sess = Some uid" and "sess_role sess \<noteq> Some ''admin''"
    and "sqlite_int eid" and "select_expense d eid = Some e" and "e_user_id e \<noteq> uid"
  shows "edit_expense float_str eid sess req d =
           \<lparr>resp = Redirect Expenses,
            flashed = [(''You do not have permission to edit this item.'', ''danger'')],
            store = d\<rparr> \<and>
         delete_expense eid sess req d =
           \<lparr>resp = Redirect Expenses,
            flashed = [(''You do not have permission to delete this item.'', ''danger'')],
            store = d\<rparr> \<and>
         select_expense (store (edit_expense float_str eid sess req d)) eid = Some e \<and>
         select_expense (store (delete_expense eid sess req d)) eid = Some e"
proof -
  note p = permission_denied_other [OF assms(1,2,5)]
  have 1: "edit_expense float_str eid sess req d =
           \<lparr>resp = Redirect Expenses,
            flashed = [(''You do not have permission to edit this item.'', ''danger'')],
            store = d\<rparr>"
    using assms(1,3,4) p
    by (simp add: edit_expense_def login_required_def edit_expense_view_def)
  have 2: "delete_expense eid sess req d =
           \<lparr>resp = Redirect Expenses,
            flashed = [(''You do not have permission to delete this item.'', ''danger'')],
            store = d\<rparr>"
    using assms(1,3,4) p
    by (simp add: delete_expense_def login_required_def delete_expense_view_def)
  show ?thesis unfolding 1 2 using assms(4) by simp
qed

lemma sample_expense_2:
  "sqlite_int 2 \<and> select_expense sample_db 2 =
     Some \<lparr>e_id = 2, e_user_id = 2, e_category_id = 2, e_amount = Finite 30,
           e_description = ''taxi'', e_expense_date = ''2024-01-02'', e_is_essential = 0\<rparr>"
  by code_simp

theorem non_owner_forbidden_witness:
  "sess_user_id student_session = Some 1 \<and> sess_role student_session \<noteq> Some ''admin'' \<and>
   sqlite_int 2 \<and>
   select_expense sample_db 2 =
     Some \<lparr>e_id = 2, e_user_id = 2, e_category_id = 2, e_amount = Finite 30,
           e_description = ''taxi'', e_expense_date = ''2024-01-02'', e_is_essential = 0\<rparr> \<and>
   edit_expense float_sample 2 student_session
       (post_request ''/expenses/2/edit''
          [(''category_id'', ''1''), (''amount'', ''12.50''), (''description'', ''mine''),
           (''expense_date'', ''2024-02-02'')]) sample_db =
     \<lparr>resp = Redirect Expenses,
      flashed = [(''You do not have permission to edit this item.'', ''danger'')],
      store = sample_db\<rparr> \<and>
   delete_expense 2 student_session (post_request ''/expenses/2/delete'' []) sample_db =
     \<lparr>resp = Redirect Expenses,
      flashed = [(''You do not have permission to delete this item.'', ''danger'')],
      store = sample_db\<rparr>"
proof -
  have s: "sqlite_int 2" and e: "select_expense sample_db 2 =
     Some \<lparr>e_id = 2, e_user_id = 2, e_category_id = 2, e_amount = Finite 30,
           e_description = ''taxi'', e_expense_date = ''2024-01-02'', e_is_essential = 0\<rparr>"
    using sample_expense_2 by blast+
  have o: "e_user_id \<lparr>e_id = 2, e_user_id = 2, e_category_id = 2, e_amount = Finite 30,
           e_description = ''taxi'', e_expense_date = ''2024-01-02'', e_is_essential = 0\<rparr> \<noteq> 1"
    by simp
  from non_owner_forbidden [OF student_user_id student_not_admin s e o]
    student_user_id student_not_admin s e
  show ?thesis by blast
qed

section \<open>A successful edit\<close>

lemma update_expense_tables:
  assumes "update_expense d cid amt descr dt ess eid = Inr d'"
  shows "users_tbl d' = users_tbl d \<and> categories_tbl d' = categories_tbl d \<and>
         expenses_tbl d' =
           map (\<lambda>e. if e_id e = eid
                     then e\<lparr>e_category_id := cid, e_amount := amt, e_description := descr,
                            e_expense_date := dt, e_is_essential := ess\<rparr>
                     else e) (expenses_tbl d)"
  using assms by (auto simp: update_expense_def split: if_splits)

lemma warnings_not_success:
  "map (\<lambda>e. (e, ''warning'')) errors \<noteq> [(m, ''success'')]"
  by (cases errors) auto

lemma edit_expense_updated:
  assumes "flashed (edit_expense float_str eid sess req d) = [(''Expense updated.'', ''success'')]"
  shows "\<exists>cid amt d'.
           py_int (py_strip (dict_get (req_form req) ''category_id'' [])) = Inr cid \<and>
           float_str (py_strip (dict_get (req_form req) ''amount'' [])) = Some amt \<and>
           update_expense d cid amt (py_strip (dict_get (req_form req) ''description'' []))
             (py_strip (dict_get (req_form req) ''expense_date'' []))
             (if map_of (req_form req) ''is_essential'' = Some ''on'' then 1 else 0) eid = Inr d' \<and>
           edit_expense float_str eid sess req d =
             \<lparr>resp = Redirect Expenses, flashed = [(''Expense updated.'', ''success'')],
              store = d'\<rparr>"
  using assms
  by (auto simp: edit_expense_def login_required_def edit_expense_view_def raised_def Let_def
      warnings_not_success
      split: if_splits sum.splits option.splits bool.splits)

text \<open>
  C10 (confirmed).  A successful Edit Expense (the one that flashes "Expense updated.")
  leaves the users and the categories as they were and keeps, row by row, the identifier
  and the owner of every expense; the rows with another identifier are unchanged, and a
  row with the edited identifier differs from the old one in \<open>category_id\<close>,
  \<open>amount\<close>, \<open>description\<close>, \<open>expense_date\<close> and \<open>is_essential\<close> only, which
  are the submitted values.
\<close>

theorem edit_keeps_id_and_owner:
  assumes "flashed (edit_expense float_str eid sess req d) = [(''Expense updated.'', ''success'')]"
  shows "users_tbl (store (edit_expense float_str eid sess req d)) = users_tbl d \<and>
         categories_tbl (store (edit_expense float_str eid sess req d)) = categories_tbl d \<and>
         map e_id (expenses_tbl (store (edit_expense float_str eid sess req d))) =
           map e_id (expenses_tbl d) \<and>
         map e_user_id (expenses_tbl (store (edit_expense float_str eid sess req d))) =
           map e_user_id (expenses_tbl d) \<and>
         (\<forall>i < length (expenses_tbl d). e_id (expenses_tbl d ! i) \<noteq> eid \<longrightarrow>
            expenses_tbl (store (edit_expense float_str eid sess req d)) ! i =
              expenses_tbl d ! i) \<and>
         (\<exists>cid amt.
            py_int (py_strip (dict_get (req_form req) ''category_id'' [])) = Inr cid \<and>
            float_str (py_strip (dict_get (req_form req) ''amount'' [])) = Some amt \<and>
            (\<forall>i < length (expenses_tbl d). e_id (expenses_tbl d ! i) = eid \<longrightarrow>
               expenses_tbl (store (edit_expense float_str eid sess req d)) ! i =
                 (expenses_tbl d ! i)
                   \<lparr>e_category_id := cid, e_amount := amt,
                    e_description := py_strip (dict_get (req_form req) ''description'' []),
                    e_expense_date := py_strip (dict_get (req_form req) ''expense_date'' []),
                    e_is_essential :=
                      (if map_of (req_form req) ''is_essential'' = Some ''on'' then 1 else 0)\<rparr>))"
proof -
  from edit_expense_updated [OF assms] obtain cid amt d' where
    c: "py_int (py_strip (dict_get (req_form req) ''category_id'' [])) = Inr cid"
    and a: "float_str (py_strip (dict_get (req_form req) ''amount'' [])) = Some amt"
    and u: "update_expense d cid amt (py_strip (dict_get (req_form req) ''description'' []))
             (py_strip (dict_get (req_form req) ''expense_date'' []))
             (if map_of (req_form req) ''is_essential'' = Some ''on'' then 1 else 0) eid = Inr d'"
    and o: "store (edit_expense float_str eid sess req d) = d'"
    by force
  note t = update_expense_tables [OF u]
  have 1: "map e_id (expenses_tbl d') = map e_id (expenses_tbl d)"
    using t by (simp add: comp_def if_distrib cong: if_cong)
  have 2: "map e_user_id (expenses_tbl d') = map e_user_id (expenses_tbl d)"
    using t by (simp add: comp_def if_distrib cong: if_cong)
  have 3: "\<forall>i < length (expenses_tbl d). e_id (expenses_tbl d ! i) \<noteq> eid \<longrightarrow>
            expenses_tbl d' ! i = expenses_tbl d ! i"
    using t by simp
  have 4: "\<forall>i < length (expenses_tbl d). e_id (expenses_tbl d ! i) = eid \<longrightarrow>
               expenses_tbl d' ! i =
                 (expenses_tbl d ! i)
                   \<lparr>e_category_id := cid, e_amount := amt,
                    e_description := py_strip (dict_get (req_form req) ''description'' []),
                    e_expense_date := py_strip (dict_get (req_form req) ''expense_date'' []),
                    e_is_essential :=
                      (if map_of (req_form req) ''is_essential'' = Some ''on'' then 1 else 0)\<rparr>"
    using t by simp
  from t 1 2 3 4 c a show ?thesis unfolding o by blast
qed

lemma sample_edit:
  "edit_expense float_sample 3 student_session
     (post_request ''/expenses/3/edit''
        [(''category_id'', ''1''), (''amount'', ''12.50''), (''description'', '' tram ''),
         (''expense_date'', ''2024-01-03''), (''is_essential'', ''on'')]) sample_db =
   \<lparr>resp = Redirect Expenses, flashed = [(''Expense updated.'', ''success'')],
    store = sample_db\<lparr>expenses_tbl :=
      [sample_expenses ! 0, sample_expenses ! 1,
       \<lparr>e_id = 3, e_user_id = 1, e_category_id = 1, e_amount = Finite 12.5,
        e_description = ''tram'', e_expense_date = ''2024-01-03'', e_is_essential = 1\<rparr>,
       sample_expenses ! 3]\<rparr>\<rparr>"
  by code_simp

theorem edit_keeps_id_and_owner_witness:
  "flashed (edit_expense float_sample 3 student_session
     (post_request ''/expenses/3/edit''
        [(''category_id'', ''1''), (''amount'', ''12.50''), (''description'', '' tram ''),
         (''expense_date'', ''2024-01-03''), (''is_essential'', ''on'')]) sample_db) =
     [(''Expense updated.'', ''success'')] \<and>
   map e_id (expenses_tbl (store (edit_expense float_sample 3 student_session
     (post_request ''/expenses/3/edit''
        [(''category_id'', ''1''), (''amount'', ''12.50''), (''description'', '' tram ''),
         (''expense_date'', ''2024-01-03''), (''is_essential'', ''on'')]) sample_db))) =
     map e_id (expenses_tbl sample_db) \<and>
   map e_user_id (expenses_tbl (store (edit_expense float_sample 3 student_session
     (post_request ''/expenses/3/edit''
        [(''category_id'', ''1''), (''amount'', ''12.50''), (''description'', '' tram ''),
         (''expense_date'', ''2024-01-03''), (''is_essential'', ''on'')]) sample_db))) =
     map e_user_id (expenses_tbl sample_db) \<and>
   map e_description (expenses_tbl (store (edit_expense float_sample 3 student_session
     (post_request ''/expenses/3/edit''
        [(''category_id'', ''1''), (''amount'', ''12.50''), (''description'', '' tram ''),
         (''expense_date'', ''2024-01-03''), (''is_essential'', ''on'')]) sample_db))) =
     [''lunch'', ''taxi'', ''tram'', ''snack'']"
proof -
  have f: "flashed (edit_expense float_sample 3 student_session
     (post_request ''/expenses/3/edit''
        [(''category_id'', ''1''), (''amount'', ''12.50''), (''description'', '' tram ''),
         (''expense_date'', ''2024-01-03''), (''is_essential'', ''on'')]) sample_db) =
     [(''Expense updated.'', ''success'')]"
    unfolding sample_edit by simp
  have g: "map e_description (expenses_tbl (store (edit_expense float_sample 3 student_session
     (post_request ''/expenses/3/edit''
        [(''category_id'', ''1''), (''amount'', ''12.50''), (''description'', '' tram ''),
         (''expense_date'', ''2024-01-03''), (''is_essential'', ''on'')]) sample_db))) =
     [''lunch'', ''taxi'', ''tram'', ''snack'']"
    unfolding sample_edit by (simp add: sample_expenses_def)
  from edit_keeps_id_and_owner [OF f] f g show ?thesis by blast
qed

end
